theory Spec2Isabelle
  imports Main "HOL-Library.Word"
begin

unbundle bit_operations_syntax

section \<open>kmip-cli: a shallow embedding of main.go\<close>

text \<open>
  The program is one Go file. Its own code is argument handling, TLS set-up, reading the
  request, one request/response exchange and printing. Everything it calls in the Go
  standard library that the properties below depend on (\<open>encoding/hex\<close>,
  \<open>strings.TrimSpace\<close>) is written out here from the library's documented behaviour;
  everything else it calls (the file system, the TLS stack, the XML decoder and the
  kmip-go TTLV library) is a field of the record \<open>env\<close>, so every theorem holds for
  whatever those calls return.

  Go conventions used throughout:
  \<^item> \<open>[]byte\<close> is a list of 8-bit words, \<open>string\<close> is a list of \<open>char\<close> (a \<open>char\<close>
    is one byte); a \<open>nil\<close> slice is the empty list;
  \<^item> a Go function returning \<open>(T, error)\<close> returns a pair whose second component is
    \<open>None\<close> for a \<open>nil\<close> error: Go returns both values, and the caller decides
    which one to look at;
  \<^item> \<open>fmt.Errorf\<close> is kept as its format string with its arguments, not rendered.
\<close>

subsection \<open>Bytes, strings and errors\<close>

type_synonym byte = "8 word"

text \<open>\<open>kmip14.ResultStatus\<close> is a \<open>uint32\<close> enumeration of kmip-go.\<close>

type_synonym ResultStatus = "32 word"

datatype error =
    EOF
  | ErrUnexpectedEOF
  | ErrLength
  | InvalidByteError byte
  | External string
  | Errorf string "fmt_arg list"
and fmt_arg =
    ArgInt int
  | ArgString string
  | ArgError error
  | ArgStatusString ResultStatus

text \<open>The conversions \<open>string(b)\<close> and \<open>[]byte(s)\<close> keep every byte.\<close>

definition string_of_bytes :: "byte list \<Rightarrow> string" where
  "string_of_bytes bs = map (\<lambda>b. char_of (unat b)) bs"

definition bytes_of_string :: "string \<Rightarrow> byte list" where
  "bytes_of_string s = map of_char s"

subsection \<open>encoding/hex\<close>

definition hextable :: string where
  "hextable = ''0123456789abcdef''"

text \<open>
  \<open>hex.EncodeToString\<close>: for each byte \<open>v\<close> the two characters
  \<open>hextable[v>>4]\<close> and \<open>hextable[v&0x0f]\<close>.
\<close>

fun EncodeToString :: "byte list \<Rightarrow> string" where
  "EncodeToString [] = []"
| "EncodeToString (v # src) =
     hextable ! unat (drop_bit 4 v) # hextable ! unat (v AND 0x0f) # EncodeToString src"

text \<open>
  \<open>reverseHexTable\<close>: the value of a hexadecimal digit of either case, \<open>0xff\<close> for
  every other byte.
\<close>

definition reverseHexTable :: "byte \<Rightarrow> byte" where
  "reverseHexTable c =
     (if 0x30 \<le> c \<and> c \<le> 0x39 then c - 0x30
      else if 0x61 \<le> c \<and> c \<le> 0x66 then c - 0x61 + 10
      else if 0x41 \<le> c \<and> c \<le> 0x46 then c - 0x41 + 10
      else 0xff)"

text \<open>
  \<open>hex.DecodeString\<close>: two characters give one byte; the first character that is
  not a digit stops the decoding with \<open>InvalidByteError\<close>, an odd length with
  \<open>ErrLength\<close> (after the check of the last character). The bytes decoded before
  the error are returned with it.
\<close>

fun DecodeString :: "string \<Rightarrow> byte list \<times> error option" where
  "DecodeString [] = ([], None)"
| "DecodeString [p] =
     (if reverseHexTable (of_char p) > 0x0f then ([], Some (InvalidByteError (of_char p)))
      else ([], Some ErrLength))"
| "DecodeString (p # q # src) =
     (let a = reverseHexTable (of_char p); b = reverseHexTable (of_char q) in
      if a > 0x0f then ([], Some (InvalidByteError (of_char p)))
      else if b > 0x0f then ([], Some (InvalidByteError (of_char q)))
      else (case DecodeString src of (dst, err) \<Rightarrow> ((push_bit 4 a OR b) # dst, err)))"

subsection \<open>strings.TrimSpace\<close>

text \<open>
  \<open>strings.TrimSpace\<close> removes the leading and then the trailing white space of a
  string, rune by rune, white space being \<open>unicode.IsSpace\<close>. The table holds the UTF-8
  encoding of each rune of \<open>unicode.White_Space\<close>: the six ASCII ones, U+0085, U+00A0,
  U+1680, U+2000 to U+200A, U+2028, U+2029, U+202F, U+205F and U+3000. UTF-8 has one
  encoding for each rune and no encoding is the start or the end of another, so a string
  starts (ends) with a white-space rune exactly when it starts (ends) with one of these
  byte sequences; a byte that does not decode is the rune U+FFFD, which is not white
  space and stops the trimming.
\<close>

definition spaceRunes :: "string list" where
  "spaceRunes =
     [[CHR 0x09], [CHR 0x0A], [CHR 0x0B], [CHR 0x0C], [CHR 0x0D], [CHR 0x20],
      [CHR 0xC2, CHR 0x85], [CHR 0xC2, CHR 0xA0],
      [CHR 0xE1, CHR 0x9A, CHR 0x80],
      [CHR 0xE2, CHR 0x80, CHR 0x80], [CHR 0xE2, CHR 0x80, CHR 0x81],
      [CHR 0xE2, CHR 0x80, CHR 0x82], [CHR 0xE2, CHR 0x80, CHR 0x83],
      [CHR 0xE2, CHR 0x80, CHR 0x84], [CHR 0xE2, CHR 0x80, CHR 0x85],
      [CHR 0xE2, CHR 0x80, CHR 0x86], [CHR 0xE2, CHR 0x80, CHR 0x87],
      [CHR 0xE2, CHR 0x80, CHR 0x88], [CHR 0xE2, CHR 0x80, CHR 0x89],
      [CHR 0xE2, CHR 0x80, CHR 0x8A],
      [CHR 0xE2, CHR 0x80, CHR 0xA8], [CHR 0xE2, CHR 0x80, CHR 0xA9],
      [CHR 0xE2, CHR 0x80, CHR 0xAF],
      [CHR 0xE2, CHR 0x81, CHR 0x9F],
      [CHR 0xE3, CHR 0x80, CHR 0x80]]"

definition startsWith :: "string \<Rightarrow> string \<Rightarrow> bool" where
  "startsWith s e = (e \<noteq> [] \<and> take (length e) s = e)"

text \<open>Remove leading runes of the table for as long as there is one.\<close>

function stripRunes :: "string list \<Rightarrow> string \<Rightarrow> string" where
  "stripRunes rs s =
     (case find (startsWith s) rs of
        None \<Rightarrow> s
      | Some e \<Rightarrow> stripRunes rs (drop (length e) s))"
  by pat_completeness auto
termination
proof (relation "measure (\<lambda>(rs, s). length s)")
  show "wf (measure (\<lambda>(rs :: string list, s :: string). length s))"
    by simp
next
  fix rs :: "string list" and s e :: string
  assume "find (startsWith s) rs = Some e"
  then have "startsWith s e"
    by (auto simp: find_Some_iff)
  then have "e \<noteq> []" and "take (length e) s = e"
    by (simp_all add: startsWith_def)
  then have "s \<noteq> []"
    by auto
  with \<open>e \<noteq> []\<close> show "((rs, drop (length e) s), (rs, s)) \<in> measure (\<lambda>(rs, s). length s)"
    by simp
qed

declare stripRunes.simps [simp del]

definition TrimSpace :: "string \<Rightarrow> string" where
  "TrimSpace s = rev (stripRunes (map rev spaceRunes) (rev (stripRunes spaceRunes s)))"

subsection \<open>The world outside the program\<close>

text \<open>
  An \<open>io.Reader\<close> is the bytes it delivers and the error that ends them, if any
  (\<open>None\<close>: a clean end of file). \<open>ioutil.ReadAll\<close> returns both.
\<close>

record reader =
  rd_data :: "byte list"
  rd_err :: "error option"

definition ReadAll :: "reader \<Rightarrow> byte list \<times> error option" where
  "ReadAll r = (rd_data r, rd_err r)"

definition NewReader :: "string \<Rightarrow> reader" where
  "NewReader s = \<lparr>rd_data = bytes_of_string s, rd_err = None\<rparr>"

text \<open>\<open>ttlv.TTLV\<close> is a \<open>[]byte\<close> holding one encoded node.\<close>

type_synonym TTLV = "byte list"

text \<open>
  Of \<open>kmip.ResponseMessage\<close> and \<open>kmip.ResponseBatchItem\<close> the program reads the
  batch items, and of each its result status and result message.
\<close>

record ResponseBatchItem =
  ResultStatus :: ResultStatus
  ResultMessage :: string

record ResponseMessage =
  BatchItem :: "ResponseBatchItem list"

text \<open>
  \<open>kmip14.ResultStatusSuccess\<close> is a constant of kmip-go: the value 0 that the KMIP
  specification gives to Success. No theorem below depends on the value.
\<close>

definition ResultStatusSuccess :: ResultStatus where
  "ResultStatusSuccess = 0"

text \<open>\<open>tls.Certificate\<close>, \<open>x509.CertPool\<close> and the fields of \<open>tls.Config\<close> the program sets.\<close>

record tls_Certificate =
  Certificate :: "byte list list"
  PrivateKey :: "byte list"

type_synonym x509_CertPool = "byte list list"

record tls_Config =
  Certificates :: "tls_Certificate list"
  MinVersion :: "16 word"
  RootCAs :: "x509_CertPool option"
  InsecureSkipVerify :: bool

text \<open>\<open>tls.VersionTLS12\<close>, a constant of \<open>crypto/tls\<close>.\<close>

definition VersionTLS12 :: "16 word" where
  "VersionTLS12 = 0x0303"

text \<open>
  An \<open>io.ReadWriter\<close>: what \<open>Write\<close> returns for a request, and what can be read
  back once the request is written. A \<open>tls.Conn\<close> is one that keeps its configuration.
\<close>

record ReadWriter =
  rw_Write :: "byte list \<Rightarrow> nat \<times> error option"
  rw_incoming :: "byte list \<Rightarrow> reader"

record tls_Conn = ReadWriter +
  conn_config :: tls_Config

text \<open>
  The calls whose code is outside the program: the file system and standard input, the
  X.509 and TLS libraries, the network, \<open>encoding/xml\<close> on a \<open>ttlv.TTLV\<close> and the
  kmip-go decoder.
\<close>

record env =
  os_Open :: "string \<Rightarrow> reader \<times> error option"
  os_Stdin :: reader
  ioutil_ReadFile :: "string \<Rightarrow> byte list \<times> error option"
  tls_LoadX509KeyPair :: "string \<Rightarrow> string \<Rightarrow> tls_Certificate \<times> error option"
  pem_certificates :: "byte list \<Rightarrow> byte list list"
  net_Dial :: "string \<Rightarrow> string \<Rightarrow> tls_Config \<Rightarrow> ReadWriter \<times> error option"
  xml_Decode :: "reader \<Rightarrow> TTLV \<times> error option"
  xml_MarshalIndent :: "TTLV \<Rightarrow> string \<Rightarrow> string \<Rightarrow> byte list \<times> error option"
  ttlv_NextTTLV :: "reader \<Rightarrow> TTLV \<times> error option"
  ttlv_DecodeValue :: "TTLV \<Rightarrow> ResponseMessage \<times> error option"
  flag_PrintDefaults :: string

subsection \<open>Reading the request\<close>

text \<open>\<open>fmt.Println\<close> of one string: the string and a newline.\<close>

definition Println :: "string \<Rightarrow> string" where
  "Println s = s @ [CHR 0x0A]"

definition xmlToHex :: "env \<Rightarrow> reader \<Rightarrow> string \<times> error option" where
  "xmlToHex E r =
     (case xml_Decode E r of
        (raw, Some err) \<Rightarrow> (if err = EOF then ([], None) else ([], Some err))
      | (raw, None) \<Rightarrow> (EncodeToString raw, None))"

text \<open>
  \<open>readRequest\<close> returns what it printed on standard output (the prompt, when it reads
  standard input) with the request bytes and the error. Its last statement returns both
  results of \<open>hex.DecodeString\<close> as they are. The deferred \<open>f.Close()\<close> of the input
  file changes none of the results and is left out.
\<close>

definition readRequest :: "env \<Rightarrow> string \<Rightarrow> string \<Rightarrow> string \<times> byte list \<times> error option" where
  "readRequest E inputFile inputFormat =
     (let (out, reader, openErr) =
            (if inputFile \<noteq> [] then
               (case os_Open E inputFile of (f, err) \<Rightarrow> ([], f, err))
             else
               (Println ''Enter KMIP request, then press Ctrl+D (or Ctrl+Z on Windows) to send:'',
                os_Stdin E, None))
      in case openErr of
        Some err \<Rightarrow>
          (out, [], Some (Errorf ''failed to open input file %q: %w''
                           [ArgString inputFile, ArgError err]))
      | None \<Rightarrow>
          (case ReadAll reader of
             (requestBytes, Some err) \<Rightarrow>
               (out, [], Some (Errorf ''failed to read request: %w'' [ArgError err]))
           | (requestBytes, None) \<Rightarrow>
               (let requestStr = TrimSpace (string_of_bytes requestBytes) in
                if inputFormat = ''xml'' then
                  (case xmlToHex E (NewReader requestStr) of
                     (hexRequest, Some err) \<Rightarrow>
                       (out, [], Some (Errorf ''failed to convert XML request to hex: %w''
                                        [ArgError err]))
                   | (hexRequest, None) \<Rightarrow>
                       (case DecodeString hexRequest of (bs, err) \<Rightarrow> (out, bs, err)))
                else
                  (case DecodeString requestStr of (bs, err) \<Rightarrow> (out, bs, err)))))"

text \<open>The reader \<open>readRequest\<close> reads: the named file once opened, else standard input.\<close>

definition reads_from :: "env \<Rightarrow> string \<Rightarrow> reader \<Rightarrow> bool" where
  "reads_from E inputFile r =
     (if inputFile \<noteq> [] then os_Open E inputFile = (r, None) else os_Stdin E = r)"

text \<open>The ASCII white space of \<open>strings.TrimSpace\<close>: tab, newline, VT, FF, CR and space.\<close>

definition asciiSpace :: "char \<Rightarrow> bool" where
  "asciiSpace c = (c \<in> {CHR 0x09, CHR 0x0A, CHR 0x0B, CHR 0x0C, CHR 0x0D, CHR 0x20})"

subsection \<open>The exchange\<close>

text \<open>
  The loop over the batch items, with the index it has reached: the first item whose
  status is not Success ends it with the error.
\<close>

fun checkBatchItems :: "nat \<Rightarrow> ResponseBatchItem list \<Rightarrow> error option" where
  "checkBatchItems i [] = None"
| "checkBatchItems i (item # items) =
     (if ResultStatus item \<noteq> ResultStatusSuccess then
        Some (Errorf ''KMIP operation in batch item %d failed: %s - %s''
                [ArgInt (int i), ArgStatusString (ResultStatus item),
                 ArgString (ResultMessage item)])
      else checkBatchItems (Suc i) items)"

text \<open>
  \<open>sendRequest\<close>: write, read one node with the kmip-go decoder, decode it as a
  response message, check the batch items. \<open>fmt.Sprintf("%x", []byte(resp))\<close> is the
  lower-case hexadecimal text of the bytes, which is \<open>EncodeToString\<close>.
\<close>

definition sendRequest ::
    "env \<Rightarrow> 'a ReadWriter_scheme \<Rightarrow> byte list \<Rightarrow> TTLV \<times> string \<times> error option" where
  "sendRequest E conn request =
     (case rw_Write conn request of
        (n, Some err) \<Rightarrow> ([], ''Unable to write request'', Some err)
      | (n, None) \<Rightarrow>
          (case ttlv_NextTTLV E (rw_incoming conn request) of
             (resp, Some err) \<Rightarrow> ([], ''Unable to decode response TTLV'', Some err)
           | (resp, None) \<Rightarrow>
               (case ttlv_DecodeValue E resp of
                  (respMsg, Some err) \<Rightarrow>
                    (resp, [], Some (Errorf ''failed to decode response message: %w''
                                      [ArgError err]))
                | (respMsg, None) \<Rightarrow>
                    (case checkBatchItems 0 (BatchItem respMsg) of
                       Some err \<Rightarrow> (resp, [], Some err)
                     | None \<Rightarrow> (resp, EncodeToString resp, None)))))"

subsection \<open>Printing the response\<close>

text \<open>
  \<open>printResponse\<close> returns what it printed on standard output with the error. The
  source discards what \<open>fmt.Println\<close> returns, so a failed write is no error of
  \<open>printResponse\<close>.
\<close>

definition printResponse :: "env \<Rightarrow> TTLV \<Rightarrow> string \<Rightarrow> string \<times> error option" where
  "printResponse E response format =
     (if format = ''xml'' then
        (case xml_MarshalIndent E response [] ''  '' of
           (s, Some err) \<Rightarrow> ([], Some (Errorf ''error printing XML: %w'' [ArgError err]))
         | (s, None) \<Rightarrow> (Println (string_of_bytes s), None))
      else if format = ''hex'' then (Println (EncodeToString response), None)
      else ([], Some (Errorf ''unknown output format: %s'' [ArgString format])))"

subsection \<open>The connection\<close>

definition NewCertPool :: x509_CertPool where
  "NewCertPool = []"

text \<open>\<open>AppendCertsFromPEM\<close> adds the certificates found in the PEM data to the pool.\<close>

definition AppendCertsFromPEM :: "env \<Rightarrow> x509_CertPool \<Rightarrow> byte list \<Rightarrow> x509_CertPool" where
  "AppendCertsFromPEM E pool pemCerts = pool @ pem_certificates E pemCerts"

text \<open>
  \<open>tls.Dial\<close> connects and runs the handshake under the configuration; the connection
  it returns keeps that configuration.
\<close>

definition tls_Dial :: "env \<Rightarrow> string \<Rightarrow> string \<Rightarrow> tls_Config \<Rightarrow> error + tls_Conn" where
  "tls_Dial E network addr config =
     (case net_Dial E network addr config of
        (rw, Some err) \<Rightarrow> Inl err
      | (rw, None) \<Rightarrow>
          Inr \<lparr>rw_Write = rw_Write rw, rw_incoming = rw_incoming rw, conn_config = config\<rparr>)"

text \<open>
  The first part of \<open>setupConnection\<close>, up to the call of \<open>tls.Dial\<close>: the
  configuration it builds, or the error it returns before dialling.
\<close>

definition setupConnection_conf :: "env \<Rightarrow> string \<Rightarrow> string \<Rightarrow> string \<Rightarrow> error + tls_Config" where
  "setupConnection_conf E keyFile certFile caFile =
     (case tls_LoadX509KeyPair E certFile keyFile of
        (cer, Some err) \<Rightarrow> Inl (Errorf ''failed to load client key pair: %w'' [ArgError err])
      | (cer, None) \<Rightarrow>
          (let conf = \<lparr>Certificates = [cer], MinVersion = VersionTLS12,
                       RootCAs = None, InsecureSkipVerify = False\<rparr> in
           if caFile \<noteq> [] then
             (case ioutil_ReadFile E caFile of
                (caCert, Some err) \<Rightarrow>
                  Inl (Errorf ''failed to read CA certificate: %w'' [ArgError err])
              | (caCert, None) \<Rightarrow>
                  Inr (conf\<lparr>RootCAs := Some (AppendCertsFromPEM E NewCertPool caCert)\<rparr>))
           else Inr (conf\<lparr>InsecureSkipVerify := True\<rparr>)))"

definition setupConnection ::
    "env \<Rightarrow> string \<Rightarrow> string \<Rightarrow> string \<Rightarrow> string \<Rightarrow> error + tls_Conn" where
  "setupConnection E serverAddr keyFile certFile caFile =
     (case setupConnection_conf E keyFile certFile caFile of
        Inl err \<Rightarrow> Inl err
      | Inr conf \<Rightarrow>
          (case tls_Dial E ''tcp'' serverAddr conf of
             Inl err \<Rightarrow> Inl (Errorf ''failed to connect to server: %w'' [ArgError err])
           | Inr conn \<Rightarrow> Inr conn))"

subsection \<open>The program\<close>

record flags =
  serverAddr :: string
  keyFile :: string
  certFile :: string
  caFile :: string
  inputFile :: string
  inputFormat :: string
  outputFormat :: string
  "help" :: bool

text \<open>
  What a run leaves behind: the text on standard output, the items on standard error,
  the connection it established, whether \<open>conn.Close\<close> was called, and the exit status.
\<close>

datatype stderr_item = Raw string | Logf string "fmt_arg list"

record process =
  stdout :: string
  stderr :: "stderr_item list"
  established :: "tls_Conn option"
  closed :: bool
  exit_status :: nat

text \<open>
  \<open>printCustomHelp\<close>: the \<open>fmt.Println\<close> lines go to standard output,
  \<open>flag.PrintDefaults\<close> writes to standard error.
\<close>

definition printCustomHelp :: "env \<Rightarrow> string \<times> string" where
  "printCustomHelp E =
     (Println ''A command-line tool for sending KMIP requests to a server.''
      @ Println (CHR 0x0A # ''Usage:'')
      @ Println ''  kmip-cli -server <ip:port> -key <keyfile> -cert <certfile> [options]''
      @ Println (CHR 0x0A # ''Options:'')
      @ Println (CHR 0x0A # ''Example:'')
      @ Println (''  echo '' @ [CHR 0x22] @ ''42007801...'' @ [CHR 0x22]
                 @ '' | kmip-cli -server localhost:5696 -key client.key -cert client.pem''),
      flag_PrintDefaults E)"

text \<open>
  \<open>log.Fatalf\<close> writes the message to standard error and calls \<open>os.Exit(1)\<close>: the
  process ends there, and \<open>os.Exit\<close> does not run deferred calls.
\<close>

definition Fatalf :: "process \<Rightarrow> string \<Rightarrow> fmt_arg list \<Rightarrow> process" where
  "Fatalf p format args = p\<lparr>stderr := stderr p @ [Logf format args], exit_status := 1\<rparr>"

text \<open>
  \<open>main\<close>, from the flags as \<open>flag.Parse\<close> leaves them (a command line that does
  not parse ends the program inside \<open>flag.Parse\<close>, before any of this). A return from
  \<open>main\<close> runs the deferred \<open>conn.Close()\<close> when it has been registered, and the
  exit status is 0. The hexadecimal text that \<open>sendRequest\<close> returns is not used.
\<close>

definition main :: "env \<Rightarrow> flags \<Rightarrow> process" where
  "main E fl =
     (if help fl \<or> serverAddr fl = [] \<or> keyFile fl = [] \<or> certFile fl = [] then
        (case printCustomHelp E of
           (out, usage) \<Rightarrow>
             \<lparr>stdout = out, stderr = [Raw usage], established = None, closed = False,
              exit_status = 0\<rparr>)
      else
        (case setupConnection E (serverAddr fl) (keyFile fl) (certFile fl) (caFile fl) of
           Inl err \<Rightarrow>
             Fatalf \<lparr>stdout = [], stderr = [], established = None, closed = False,
                     exit_status = 0\<rparr>
               ''Failed to establish connection: %v'' [ArgError err]
         | Inr conn \<Rightarrow>
             (let p = \<lparr>stdout = [], stderr = [], established = Some conn, closed = False,
                       exit_status = 0\<rparr> in
              case readRequest E (inputFile fl) (inputFormat fl) of
                (out, requestBytes, Some err) \<Rightarrow>
                  Fatalf (p\<lparr>stdout := out\<rparr>) ''Failed to read request: %v'' [ArgError err]
              | (out, requestBytes, None) \<Rightarrow>
                  (case sendRequest E conn requestBytes of
                     (responseTTLV, hexResponse, Some err) \<Rightarrow>
                       Fatalf (p\<lparr>stdout := out\<rparr>) ''Failed to send request: %v'' [ArgError err]
                   | (responseTTLV, hexResponse, None) \<Rightarrow>
                       (case printResponse E responseTTLV (outputFormat fl) of
                          (out', Some err) \<Rightarrow>
                            Fatalf (p\<lparr>stdout := out @ out'\<rparr>)
                              ''Failed to print response: %v'' [ArgError err]
                        | (out', None) \<Rightarrow> p\<lparr>stdout := out @ out', closed := True\<rparr>)))))"

subsection \<open>A concrete world\<close>

text \<open>
  One environment on which the definitions can be run. The peer accepts every request
  and answers with the request itself; the decoder needs the eight header bytes of a
  node and hands back what it has when they are missing.
\<close>

definition example_peer :: ReadWriter where
  "example_peer =
     \<lparr>rw_Write = (\<lambda>request. (length request, None)),
      rw_incoming = (\<lambda>request. \<lparr>rd_data = request, rd_err = None\<rparr>)\<rparr>"

definition example_cert :: tls_Certificate where
  "example_cert = \<lparr>Certificate = [[0x30, 0x82]], PrivateKey = [0x30, 0x81]\<rparr>"

definition response_ok :: TTLV where
  "response_ok = [0x42, 0x00, 0x7B, 0x01, 0x00, 0x00, 0x00, 0x00]"

definition response_failed :: TTLV where
  "response_failed = [0x42, 0x00, 0x7B, 0x01, 0x00, 0x00, 0x00, 0x00, 0x01]"

definition example_items :: "ResponseBatchItem list" where
  "example_items =
     [\<lparr>ResultStatus = 0, ResultMessage = []\<rparr>,
      \<lparr>ResultStatus = 1, ResultMessage = ''Permission Denied''\<rparr>,
      \<lparr>ResultStatus = 2, ResultMessage = ''Pending''\<rparr>]"

definition example_env :: env where
  "example_env =
     \<lparr>os_Open = (\<lambda>name.
        if name = ''request.hex''
        then (\<lparr>rd_data = bytes_of_string ''42007b0100000000'', rd_err = None\<rparr>, None)
        else if name = ''request.xml''
        then (\<lparr>rd_data = bytes_of_string (''<ResponseMessage/>'' @ [CHR 0x0A]),
               rd_err = None\<rparr>, None)
        else if name = ''empty.xml''
        then (\<lparr>rd_data = bytes_of_string [CHR 0x20, CHR 0x0A], rd_err = None\<rparr>, None)
        else (\<lparr>rd_data = [], rd_err = None\<rparr>, Some (External ''no such file or directory''))),
      os_Stdin = \<lparr>rd_data = bytes_of_string (''  42007b0100000000'' @ [CHR 0x0A]),
                  rd_err = None\<rparr>,
      ioutil_ReadFile = (\<lambda>name.
        if name = ''ca.pem'' then ([0x2D, 0x2D], None)
        else ([], Some (External ''no such file or directory''))),
      tls_LoadX509KeyPair = (\<lambda>certFile keyFile.
        if certFile = ''client.pem'' \<and> keyFile = ''client.key'' then (example_cert, None)
        else (\<lparr>Certificate = [], PrivateKey = []\<rparr>, Some (External ''no such file or directory''))),
      pem_certificates = (\<lambda>pemCerts. [pemCerts]),
      net_Dial = (\<lambda>network addr config.
        if addr = ''localhost:5696'' then (example_peer, None)
        else (example_peer, Some (External ''connection refused''))),
      xml_Decode = (\<lambda>r.
        if rd_data r = [] then ([], Some EOF)
        else if rd_data r = bytes_of_string ''<ResponseMessage/>'' then (response_ok, None)
        else ([], Some (External ''XML syntax error''))),
      xml_MarshalIndent = (\<lambda>response prefix indent.
        (bytes_of_string ''<ResponseMessage></ResponseMessage>'', None)),
      ttlv_NextTTLV = (\<lambda>r.
        if length (rd_data r) < 8 then (rd_data r, Some ErrUnexpectedEOF)
        else (rd_data r, rd_err r)),
      ttlv_DecodeValue = (\<lambda>resp.
        if resp = response_ok then (\<lparr>BatchItem = take 1 example_items\<rparr>, None)
        else if resp = response_failed then (\<lparr>BatchItem = example_items\<rparr>, None)
        else (\<lparr>BatchItem = []\<rparr>, Some (External ''unexpected tag''))),
      flag_PrintDefaults = ''  -server string''\<rparr>"

definition example_flags :: flags where
  "example_flags =
     \<lparr>serverAddr = ''localhost:5696'', keyFile = ''client.key'', certFile = ''client.pem'',
      caFile = [], inputFile = [], inputFormat = ''hex'', outputFormat = ''hex'',
      help = False\<rparr>"

section \<open>Properties\<close>

subsection \<open>Bytes and hexadecimal text\<close>

lemma char_of_byte_of_char: "char_of (unat (of_char c :: byte)) = c"
proof -
  have "(of_char c :: byte) = of_nat (of_char c)"
    by (simp add: of_nat_of_char)
  then have "unat (of_char c :: byte) = of_char c mod 256"
    by (simp add: unat_of_nat)
  then show ?thesis by simp
qed

lemma byte_of_char_of_byte: "(of_char (char_of (unat b)) :: byte) = b"
proof -
  have "(of_char (char_of (unat b)) :: byte) = of_nat (of_char (char_of (unat b)) :: nat)"
    by (simp only: of_nat_of_char)
  also have "\<dots> = of_nat (unat b mod 256)"
    by (simp only: of_char_of)
  also have "\<dots> = b"
  proof -
    have "unat b < 256" using unsigned_less [of b] by simp
    then show ?thesis by simp
  qed
  finally show ?thesis .
qed

lemma string_of_bytes_of_string: "string_of_bytes (bytes_of_string s) = s"
  by (induction s) (simp_all add: string_of_bytes_def bytes_of_string_def char_of_byte_of_char)

lemma bytes_of_string_of_bytes: "bytes_of_string (string_of_bytes bs) = bs"
  by (induction bs) (simp_all add: string_of_bytes_def bytes_of_string_def byte_of_char_of_byte)

lemma reverseHexTable_table:
  "list_all (\<lambda>k. reverseHexTable (of_char (hextable ! k)) = (of_nat k :: byte)) [0..<16]"
  by code_simp

lemma reverseHexTable_hextable:
  "(n::byte) < 16 \<Longrightarrow> reverseHexTable (of_char (hextable ! unat n)) = n"
proof -
  assume "n < 16"
  then have "unat n \<in> set [0..<16]"
    by (simp add: word_less_nat_alt)
  with reverseHexTable_table
  have "reverseHexTable (of_char (hextable ! unat n)) = (of_nat (unat n) :: byte)"
    unfolding list_all_iff by blast
  then show ?thesis by simp
qed

lemma nibbles_recombine: "push_bit 4 (drop_bit 4 v) OR (v AND 0x0f) = (v::byte)"
proof -
  have m: "(0x0f::byte) = mask 4" by (simp add: mask_eq_exp_minus_1)
  show ?thesis unfolding m
    by (rule bit_word_eqI) (auto simp: bit_simps)
qed

lemma high_nibble_less: "drop_bit 4 (v::byte) < 16"
proof -
  have "unat v < 256" using unsigned_less [of v] by simp
  then have "unat v div 16 < 16" by simp
  then show ?thesis
    by (simp add: word_less_nat_alt unat_drop_bit_eq drop_bit_eq_div unat_div)
qed

lemma low_nibble_less: "(v::byte) AND 0x0f < 16"
proof -
  have "v AND 0x0f \<le> 0x0f" by (rule word_and_le1)
  then show ?thesis by (simp add: word_le_nat_alt word_less_nat_alt)
qed

lemma DecodeString_EncodeToString: "DecodeString (EncodeToString bs) = (bs, None)"
proof (induction bs)
  case Nil
  show ?case by simp
next
  case (Cons v bs)
  have h: "reverseHexTable (of_char (hextable ! unat (drop_bit 4 v))) = drop_bit 4 v"
    by (rule reverseHexTable_hextable [OF high_nibble_less])
  have l: "reverseHexTable (of_char (hextable ! unat (v AND 0x0f))) = v AND 0x0f"
    by (rule reverseHexTable_hextable [OF low_nibble_less])
  have h': "\<not> drop_bit 4 v > 0x0f"
    using high_nibble_less [of v] by (simp add: word_less_nat_alt)
  have l': "\<not> v AND 0x0f > 0x0f"
    using low_nibble_less [of v] by (simp add: word_less_nat_alt)
  show ?case using h' l'
    by (simp add: h l Cons.IH nibbles_recombine)
qed

lemma hextable_printable:
  "list_all (\<lambda>c. 0x20 < (of_char c :: nat) \<and> (of_char c :: nat) < 0x80) hextable"
  by code_simp

lemma hextable_nth_printable:
  assumes "(n::byte) < 16"
  shows "0x20 < (of_char (hextable ! unat n) :: nat) \<and> (of_char (hextable ! unat n) :: nat) < 0x80"
proof -
  from assms have "unat n < length hextable"
    by (simp add: word_less_nat_alt hextable_def)
  then have "hextable ! unat n \<in> set hextable"
    by (rule nth_mem)
  with hextable_printable show ?thesis
    unfolding list_all_iff by blast
qed

lemma EncodeToString_printable:
  "\<forall>c \<in> set (EncodeToString bs). 0x20 < (of_char c :: nat) \<and> (of_char c :: nat) < 0x80"
proof (induction bs)
  case Nil
  show ?case by simp
next
  case (Cons v bs)
  with hextable_nth_printable [OF high_nibble_less, of v]
    hextable_nth_printable [OF low_nibble_less, of v]
  show ?case by simp
qed

subsection \<open>Trimming\<close>

lemma stripRunes_None: "find (startsWith s) rs = None \<Longrightarrow> stripRunes rs s = s"
  by (simp add: stripRunes.simps)

lemma stripRunes_Some:
  "find (startsWith s) rs = Some e \<Longrightarrow> stripRunes rs s = stripRunes rs (drop (length e) s)"
  by (simp add: stripRunes.simps)

lemma stripRunes_Nil: "stripRunes rs [] = []"
  by (rule stripRunes_None) (simp add: find_None_iff startsWith_def)

lemma stripRunes_suffix: "\<exists>w. s = w @ stripRunes rs s"
proof (induction rs s rule: stripRunes.induct)
  case (1 rs s)
  show ?case
  proof (cases "find (startsWith s) rs")
    case None
    then show ?thesis by (simp add: stripRunes_None)
  next
    case (Some e)
    from "1.IH" [OF Some] obtain w where "drop (length e) s = w @ stripRunes rs (drop (length e) s)"
      by blast
    then have "s = (take (length e) s @ w) @ stripRunes rs s"
      by (simp add: stripRunes_Some [OF Some])
    then show ?thesis by blast
  qed
qed

lemma stripRunes_stops: "find (startsWith (stripRunes rs s)) rs = None"
proof (induction rs s rule: stripRunes.induct)
  case (1 rs s)
  show ?case
  proof (cases "find (startsWith s) rs")
    case None
    then show ?thesis by (simp add: stripRunes_None)
  next
    case (Some e)
    with "1.IH" [OF Some] show ?thesis by (simp add: stripRunes_Some)
  qed
qed

lemma startsWith_append: "startsWith s e \<Longrightarrow> startsWith (s @ t) e"
proof -
  assume "startsWith s e"
  then have e: "e \<noteq> []" and t: "take (length e) s = e"
    by (simp_all add: startsWith_def)
  from t have "length e \<le> length s"
    by (metis length_take min.cobounded1)
  with t have "take (length e) (s @ t) = e"
    by simp
  with e show ?thesis by (simp add: startsWith_def)
qed

lemma find_startsWith_prefix:
  "find (startsWith (s @ t)) rs = None \<Longrightarrow> find (startsWith s) rs = None"
  by (auto simp: find_None_iff dest: startsWith_append)

text \<open>Trimming a trimmed string changes nothing.\<close>

lemma TrimSpace_idem: "TrimSpace (TrimSpace s) = TrimSpace s"
proof -
  define t where "t = stripRunes spaceRunes s"
  define x where "x = stripRunes (map rev spaceRunes) (rev t)"
  from stripRunes_suffix [of "rev t" "map rev spaceRunes"]
  obtain w where "rev t = w @ x" by (auto simp: x_def)
  then have t: "t = rev x @ rev w" by (metis rev_append rev_rev_ident)
  have "find (startsWith t) spaceRunes = None"
    unfolding t_def by (rule stripRunes_stops)
  then have "find (startsWith (rev x)) spaceRunes = None"
    unfolding t by (rule find_startsWith_prefix)
  then have 1: "stripRunes spaceRunes (rev x) = rev x"
    by (rule stripRunes_None)
  have "find (startsWith x) (map rev spaceRunes) = None"
    unfolding x_def by (rule stripRunes_stops)
  then have 2: "stripRunes (map rev spaceRunes) x = x"
    by (rule stripRunes_None)
  have "TrimSpace s = rev x" by (simp add: TrimSpace_def x_def t_def)
  moreover have "TrimSpace (rev x) = rev x" by (simp add: TrimSpace_def 1 2)
  ultimately show ?thesis by simp
qed

text \<open>
  No rune of the table starts or ends with a byte strictly between the space and
  \<open>0x80\<close>, so such a byte stops the trimming at either end.
\<close>

lemma spaceRunes_heads:
  "\<forall>e \<in> set spaceRunes.
     e \<noteq> [] \<and> \<not> (0x20 < (of_char (hd e) :: nat) \<and> (of_char (hd e) :: nat) < 0x80)"
  by (simp add: spaceRunes_def)

lemma spaceRunes_lasts:
  "\<forall>e \<in> set (map rev spaceRunes).
     e \<noteq> [] \<and> \<not> (0x20 < (of_char (hd e) :: nat) \<and> (of_char (hd e) :: nat) < 0x80)"
  by (simp add: spaceRunes_def)

lemma find_startsWith_hd:
  assumes "\<forall>e \<in> set rs. e \<noteq> [] \<and> \<not> P (hd e)" and "P c"
  shows "find (startsWith (c # s)) rs = None"
proof -
  have "\<not> startsWith (c # s) e" if "e \<in> set rs" for e
  proof
    assume sw: "startsWith (c # s) e"
    have "e \<noteq> []" and "\<not> P (hd e)"
      using that assms(1) by auto
    then obtain x xs where e: "e = x # xs" and "\<not> P x"
      by (cases e) auto
    from sw e have "x = c" by (simp add: startsWith_def)
    with \<open>\<not> P x\<close> assms(2) show False by simp
  qed
  then show ?thesis by (simp add: find_None_iff)
qed

lemma strip_printable:
  "0x20 < (of_char c :: nat) \<and> (of_char c :: nat) < 0x80 \<Longrightarrow>
   stripRunes spaceRunes (c # s) = c # s"
  by (rule stripRunes_None)
     (rule find_startsWith_hd
        [where P = "\<lambda>c. 0x20 < (of_char c :: nat) \<and> (of_char c :: nat) < 0x80",
         OF spaceRunes_heads])

lemma strip_rev_printable:
  "0x20 < (of_char c :: nat) \<and> (of_char c :: nat) < 0x80 \<Longrightarrow>
   stripRunes (map rev spaceRunes) (c # s) = c # s"
  by (rule stripRunes_None)
     (rule find_startsWith_hd
        [where P = "\<lambda>c. 0x20 < (of_char c :: nat) \<and> (of_char c :: nat) < 0x80",
         OF spaceRunes_lasts])

lemma find_asciiSpace:
  assumes "asciiSpace c"
  shows "find (startsWith (c # s)) spaceRunes = Some [c]"
    and "find (startsWith (c # s)) (map rev spaceRunes) = Some [c]"
proof -
  from assms consider "c = CHR 0x09" | "c = CHR 0x0A" | "c = CHR 0x0B" | "c = CHR 0x0C"
    | "c = CHR 0x0D" | "c = CHR 0x20"
    by (auto simp: asciiSpace_def)
  then show "find (startsWith (c # s)) spaceRunes = Some [c]"
    by cases (simp_all add: spaceRunes_def startsWith_def)
  from assms consider "c = CHR 0x09" | "c = CHR 0x0A" | "c = CHR 0x0B" | "c = CHR 0x0C"
    | "c = CHR 0x0D" | "c = CHR 0x20"
    by (auto simp: asciiSpace_def)
  then show "find (startsWith (c # s)) (map rev spaceRunes) = Some [c]"
    by cases (simp_all add: spaceRunes_def startsWith_def)
qed

lemma strip_asciiSpace:
  assumes "asciiSpace c"
  shows "stripRunes spaceRunes (c # s) = stripRunes spaceRunes s"
    and "stripRunes (map rev spaceRunes) (c # s) = stripRunes (map rev spaceRunes) s"
  using find_asciiSpace [OF assms, of s] by (simp_all add: stripRunes_Some)

lemma strip_asciiSpaces:
  assumes "list_all asciiSpace ws"
  shows "stripRunes spaceRunes (ws @ s) = stripRunes spaceRunes s"
    and "stripRunes (map rev spaceRunes) (ws @ s) = stripRunes (map rev spaceRunes) s"
  using assms by (induction ws) (simp_all add: strip_asciiSpace)

lemma TrimSpace_sandwich:
  assumes pre: "list_all asciiSpace pre" and post: "list_all asciiSpace post"
    and body: "\<forall>c \<in> set body. 0x20 < (of_char c :: nat) \<and> (of_char c :: nat) < 0x80"
  shows "TrimSpace (pre @ body @ post) = body"
proof (cases body rule: rev_cases)
  case Nil
  from pre post have "list_all asciiSpace (pre @ post)" by simp
  from strip_asciiSpaces(1) [OF this, of "[]"] Nil show ?thesis
    by (simp add: TrimSpace_def stripRunes_Nil)
next
  case (snoc bs b)
  from snoc have "body \<noteq> []"
    by simp
  then obtain c cs where cons: "body = c # cs"
    by (cases body) auto
  from body cons have c: "0x20 < (of_char c :: nat) \<and> (of_char c :: nat) < 0x80"
    by simp
  from body snoc have b: "0x20 < (of_char b :: nat) \<and> (of_char b :: nat) < 0x80"
    by simp
  have "stripRunes spaceRunes (pre @ body @ post) = body @ post"
    using strip_asciiSpaces(1) [OF pre] strip_printable [OF c] cons by simp
  moreover have "list_all asciiSpace (rev post)"
    using post by simp
  then have "stripRunes (map rev spaceRunes) (rev post @ b # rev bs) = b # rev bs"
    using strip_rev_printable [OF b] by (simp add: strip_asciiSpaces(2))
  ultimately show ?thesis
    using snoc by (simp add: TrimSpace_def)
qed

lemma TrimSpace_hex:
  "list_all asciiSpace pre \<Longrightarrow> list_all asciiSpace post \<Longrightarrow>
   TrimSpace (pre @ EncodeToString bs @ post) = EncodeToString bs"
  by (rule TrimSpace_sandwich) (simp_all add: EncodeToString_printable)


subsection \<open>Reading the request\<close>

lemma snd_with_output: "snd (case p of (bs, err) \<Rightarrow> (out, bs, err)) = p"
  by (cases p) simp

lemma readRequest_read:
  assumes "reads_from E file r" and "rd_err r = None"
  shows "snd (readRequest E file fmt) =
           (if fmt = ''xml'' then
              (case xmlToHex E (NewReader (TrimSpace (string_of_bytes (rd_data r)))) of
                 (hexRequest, Some err) \<Rightarrow>
                   ([], Some (Errorf ''failed to convert XML request to hex: %w'' [ArgError err]))
               | (hexRequest, None) \<Rightarrow> DecodeString hexRequest)
            else DecodeString (TrimSpace (string_of_bytes (rd_data r))))"
proof -
  define s where "s = TrimSpace (string_of_bytes (rd_data r))"
  obtain h xerr where x: "xmlToHex E (NewReader s) = (h, xerr)"
    by (cases "xmlToHex E (NewReader s)")
  show ?thesis
  proof (cases "file = []")
    case True
    with assms have "os_Stdin E = r"
      by (simp add: reads_from_def)
    with True assms(2) x show ?thesis
      by (cases xerr)
         (simp_all add: readRequest_def ReadAll_def snd_with_output s_def [symmetric])
  next
    case False
    with assms have "os_Open E file = (r, None)"
      by (simp add: reads_from_def)
    with False assms(2) x show ?thesis
      by (cases xerr)
         (simp_all add: readRequest_def ReadAll_def snd_with_output s_def [symmetric])
  qed
qed

subsection \<open>The batch status check\<close>

lemma checkBatchItems_all_Success:
  "\<forall>item \<in> set items. ResultStatus item = ResultStatusSuccess \<Longrightarrow> checkBatchItems k items = None"
  by (induction items arbitrary: k) simp_all

lemma checkBatchItems_first_failure:
  "i < length items \<Longrightarrow> ResultStatus (items ! i) \<noteq> ResultStatusSuccess \<Longrightarrow>
   \<forall>j < i. ResultStatus (items ! j) = ResultStatusSuccess \<Longrightarrow>
   checkBatchItems k items =
     Some (Errorf ''KMIP operation in batch item %d failed: %s - %s''
            [ArgInt (int (k + i)), ArgStatusString (ResultStatus (items ! i)),
             ArgString (ResultMessage (items ! i))])"
proof (induction items arbitrary: k i)
  case Nil
  then show ?case by simp
next
  case (Cons item items)
  show ?case
  proof (cases i)
    case 0
    with Cons.prems show ?thesis by simp
  next
    case (Suc i')
    with Cons.prems have hd_ok: "ResultStatus item = ResultStatusSuccess"
      by auto
    from Suc Cons.prems have "i' < length items"
      and "ResultStatus (items ! i') \<noteq> ResultStatusSuccess"
      and "\<forall>j < i'. ResultStatus (items ! j) = ResultStatusSuccess"
      by auto
    from Cons.IH [OF this, of "Suc k"] hd_ok Suc show ?thesis
      by simp
  qed
qed

lemma first_failure_exists:
  assumes "\<exists>item \<in> set items. ResultStatus item \<noteq> ResultStatusSuccess"
  shows "\<exists>i < length items. ResultStatus (items ! i) \<noteq> ResultStatusSuccess \<and>
           (\<forall>j < i. ResultStatus (items ! j) = ResultStatusSuccess)"
proof -
  let ?P = "\<lambda>i. i < length items \<and> ResultStatus (items ! i) \<noteq> ResultStatusSuccess"
  from assms have "\<exists>i. ?P i"
    by (auto simp: in_set_conv_nth)
  then have least: "?P (LEAST i. ?P i)"
    by (rule LeastI_ex)
  have "\<forall>j < (LEAST i. ?P i). ResultStatus (items ! j) = ResultStatusSuccess"
  proof (intro allI impI)
    fix j assume lt: "j < (LEAST i. ?P i)"
    then have "\<not> ?P j" by (rule not_less_Least)
    moreover from lt least have "j < length items" by simp
    ultimately show "ResultStatus (items ! j) = ResultStatusSuccess" by simp
  qed
  with least show ?thesis by blast
qed

text \<open>
  C1. Once the request is written, one node is read and it decodes as a response message:
  if every batch item has status Success, \<open>sendRequest\<close> returns the node, its
  hexadecimal text and no error; if some batch item has another status, it returns the
  node with an error that carries the index of the first such item, that item's status
  and its result message.
\<close>

theorem sendRequest_batch_status:
  assumes "rw_Write conn request = (n, None)"
    and "ttlv_NextTTLV E (rw_incoming conn request) = (resp, None)"
    and "ttlv_DecodeValue E resp = (respMsg, None)"
  shows "((\<forall>item \<in> set (BatchItem respMsg). ResultStatus item = ResultStatusSuccess) \<longrightarrow>
            sendRequest E conn request = (resp, EncodeToString resp, None)) \<and>
         ((\<exists>item \<in> set (BatchItem respMsg). ResultStatus item \<noteq> ResultStatusSuccess) \<longrightarrow>
            (\<exists>i < length (BatchItem respMsg).
               ResultStatus (BatchItem respMsg ! i) \<noteq> ResultStatusSuccess \<and>
               (\<forall>j < i. ResultStatus (BatchItem respMsg ! j) = ResultStatusSuccess) \<and>
               sendRequest E conn request =
                 (resp, [],
                  Some (Errorf ''KMIP operation in batch item %d failed: %s - %s''
                         [ArgInt (int i), ArgStatusString (ResultStatus (BatchItem respMsg ! i)),
                          ArgString (ResultMessage (BatchItem respMsg ! i))]))))"
proof (intro conjI impI)
  assume "\<forall>item \<in> set (BatchItem respMsg). ResultStatus item = ResultStatusSuccess"
  then have "checkBatchItems 0 (BatchItem respMsg) = None"
    by (rule checkBatchItems_all_Success)
  with assms show "sendRequest E conn request = (resp, EncodeToString resp, None)"
    by (simp add: sendRequest_def)
next
  assume "\<exists>item \<in> set (BatchItem respMsg). ResultStatus item \<noteq> ResultStatusSuccess"
  then obtain i where i: "i < length (BatchItem respMsg)"
      "ResultStatus (BatchItem respMsg ! i) \<noteq> ResultStatusSuccess"
      "\<forall>j < i. ResultStatus (BatchItem respMsg ! j) = ResultStatusSuccess"
    using first_failure_exists by blast
  from checkBatchItems_first_failure [OF i, of 0] assms
  have "sendRequest E conn request =
          (resp, [],
           Some (Errorf ''KMIP operation in batch item %d failed: %s - %s''
                  [ArgInt (int i), ArgStatusString (ResultStatus (BatchItem respMsg ! i)),
                   ArgString (ResultMessage (BatchItem respMsg ! i))]))"
    by (simp add: sendRequest_def)
  with i show "\<exists>i < length (BatchItem respMsg).
               ResultStatus (BatchItem respMsg ! i) \<noteq> ResultStatusSuccess \<and>
               (\<forall>j < i. ResultStatus (BatchItem respMsg ! j) = ResultStatusSuccess) \<and>
               sendRequest E conn request =
                 (resp, [],
                  Some (Errorf ''KMIP operation in batch item %d failed: %s - %s''
                         [ArgInt (int i), ArgStatusString (ResultStatus (BatchItem respMsg ! i)),
                          ArgString (ResultMessage (BatchItem respMsg ! i))]))"
    by blast
qed

theorem sendRequest_batch_status_witness:
  "rw_Write example_peer response_ok = (8, None) \<and>
   ttlv_NextTTLV example_env (rw_incoming example_peer response_ok) = (response_ok, None) \<and>
   ttlv_DecodeValue example_env response_ok = (\<lparr>BatchItem = take 1 example_items\<rparr>, None) \<and>
   sendRequest example_env example_peer response_ok = (response_ok, ''42007b0100000000'', None) \<and>
   rw_Write example_peer response_failed = (9, None) \<and>
   ttlv_NextTTLV example_env (rw_incoming example_peer response_failed) = (response_failed, None) \<and>
   ttlv_DecodeValue example_env response_failed = (\<lparr>BatchItem = example_items\<rparr>, None) \<and>
   sendRequest example_env example_peer response_failed =
     (response_failed, [],
      Some (Errorf ''KMIP operation in batch item %d failed: %s - %s''
             [ArgInt 1, ArgStatusString 1, ArgString ''Permission Denied'']))"
proof -
  have w: "rw_Write example_peer response_ok = (8, None)"
    "rw_Write example_peer response_failed = (9, None)"
    by (simp_all add: example_peer_def response_ok_def response_failed_def)
  have n: "ttlv_NextTTLV example_env (rw_incoming example_peer response_ok) = (response_ok, None)"
    "ttlv_NextTTLV example_env (rw_incoming example_peer response_failed) = (response_failed, None)"
    by (simp_all add: example_env_def example_peer_def response_ok_def response_failed_def)
  have d: "ttlv_DecodeValue example_env response_ok = (\<lparr>BatchItem = take 1 example_items\<rparr>, None)"
    "ttlv_DecodeValue example_env response_failed = (\<lparr>BatchItem = example_items\<rparr>, None)"
    by (simp_all add: example_env_def response_ok_def response_failed_def)
  from sendRequest_batch_status [OF w(1) n(1) d(1)]
  have ok: "sendRequest example_env example_peer response_ok =
              (response_ok, EncodeToString response_ok, None)"
    by (simp add: example_items_def ResultStatusSuccess_def)
  from sendRequest_batch_status [OF w(2) n(2) d(2)]
  obtain i where i: "i < length example_items"
    "ResultStatus (example_items ! i) \<noteq> ResultStatusSuccess"
    "\<forall>j<i. ResultStatus (example_items ! j) = ResultStatusSuccess"
    "sendRequest example_env example_peer response_failed =
       (response_failed, [],
        Some (Errorf ''KMIP operation in batch item %d failed: %s - %s''
               [ArgInt (int i), ArgStatusString (ResultStatus (example_items ! i)),
                ArgString (ResultMessage (example_items ! i))]))"
    by (auto simp: example_items_def ResultStatusSuccess_def)
  have "i = 1"
  proof -
    from i(1) have "i = 0 \<or> i = 1 \<or> i = 2"
      by (auto simp: example_items_def)
    moreover from i(3) have "1 < i \<longrightarrow> ResultStatus (example_items ! 1) = ResultStatusSuccess"
      by simp
    ultimately show ?thesis
      using i(2) by (auto simp: example_items_def ResultStatusSuccess_def)
  qed
  with i(4) ok w n d show ?thesis
    by (simp add: example_items_def response_ok_def hextable_def)
qed

subsection \<open>The two input formats\<close>

text \<open>
  C6. For every byte sequence \<open>B\<close>: \<open>readRequest\<close> in format \<open>hex\<close> on the
  hexadecimal text of \<open>B\<close>, and \<open>readRequest\<close> in format \<open>xml\<close> on a document
  that the XML decoder turns into \<open>B\<close>, both return \<open>B\<close> with no error; the
  encoding to hexadecimal text and back that the XML path goes through is the identity.
\<close>

theorem readRequest_hex_xml_agree:
  assumes "reads_from E hexFile rh" and "rd_err rh = None"
    and "string_of_bytes (rd_data rh) = EncodeToString B"
    and "reads_from E xmlFile rx" and "rd_err rx = None"
    and "xml_Decode E (NewReader (TrimSpace (string_of_bytes (rd_data rx)))) = (B, None)"
  shows "snd (readRequest E hexFile ''hex'') = (B, None) \<and>
         snd (readRequest E xmlFile ''xml'') = (B, None) \<and>
         DecodeString (EncodeToString B) = (B, None)"
proof -
  have "TrimSpace (EncodeToString B) = EncodeToString B"
    using TrimSpace_hex [of "[]" "[]" B] by simp
  with assms(3) have "snd (readRequest E hexFile ''hex'') = (B, None)"
    by (simp add: readRequest_read [OF assms(1,2)] DecodeString_EncodeToString)
  moreover from assms(6) have "snd (readRequest E xmlFile ''xml'') = (B, None)"
    by (simp add: readRequest_read [OF assms(4,5)] xmlToHex_def DecodeString_EncodeToString)
  ultimately show ?thesis
    by (simp add: DecodeString_EncodeToString)
qed

theorem readRequest_hex_xml_agree_witness:
  "reads_from example_env ''request.hex''
     \<lparr>rd_data = bytes_of_string ''42007b0100000000'', rd_err = None\<rparr> \<and>
   reads_from example_env ''request.xml''
     \<lparr>rd_data = bytes_of_string (''<ResponseMessage/>'' @ [CHR 0x0A]), rd_err = None\<rparr> \<and>
   EncodeToString response_ok = ''42007b0100000000'' \<and>
   xml_Decode example_env (NewReader ''<ResponseMessage/>'') = (response_ok, None) \<and>
   snd (readRequest example_env ''request.hex'' ''hex'') = (response_ok, None) \<and>
   snd (readRequest example_env ''request.xml'' ''xml'') = (response_ok, None)"
proof -
  let ?rh = "\<lparr>rd_data = bytes_of_string ''42007b0100000000'', rd_err = None\<rparr>"
  let ?rx = "\<lparr>rd_data = bytes_of_string (''<ResponseMessage/>'' @ [CHR 0x0A]), rd_err = None\<rparr>"
  have h1: "reads_from example_env ''request.hex'' ?rh"
    by (simp add: reads_from_def example_env_def)
  have h2: "rd_err ?rh = None"
    by simp
  have enc: "EncodeToString response_ok = ''42007b0100000000''"
    by (simp add: response_ok_def hextable_def)
  have h3: "string_of_bytes (rd_data ?rh) = EncodeToString response_ok"
    by (simp add: enc string_of_bytes_of_string)
  have x1: "reads_from example_env ''request.xml'' ?rx"
    by (simp add: reads_from_def example_env_def)
  have x2: "rd_err ?rx = None"
    by simp
  have "TrimSpace ([] @ ''<ResponseMessage/>'' @ [CHR 0x0A]) = ''<ResponseMessage/>''"
    by (rule TrimSpace_sandwich) (simp_all add: asciiSpace_def)
  then have trim: "TrimSpace (string_of_bytes (rd_data ?rx)) = ''<ResponseMessage/>''"
    by (simp add: string_of_bytes_of_string)
  have dec: "xml_Decode example_env (NewReader ''<ResponseMessage/>'') = (response_ok, None)"
    by (simp add: example_env_def NewReader_def bytes_of_string_def)
  then have x3: "xml_Decode example_env (NewReader (TrimSpace (string_of_bytes (rd_data ?rx))))
                   = (response_ok, None)"
    by (simp only: trim)
  from readRequest_hex_xml_agree [OF h1 h2 h3 x1 x2 x3] h1 x1 enc dec
  show ?thesis by simp
qed

text \<open>
  C8. Every input format other than \<open>xml\<close> is read as \<open>hex\<close> is: the result is
  that of format \<open>hex\<close>, the hexadecimal decoding of the trimmed input, with no error
  for the unknown name; \<open>printResponse\<close>, for an output format that is neither
  \<open>xml\<close> nor \<open>hex\<close>, returns an error.
\<close>

theorem readRequest_unknown_format_is_hex:
  assumes "fmt \<noteq> ''xml''"
  shows "readRequest E file fmt = readRequest E file ''hex'' \<and>
         (reads_from E file r \<and> rd_err r = None \<longrightarrow>
            snd (readRequest E file fmt) =
              DecodeString (TrimSpace (string_of_bytes (rd_data r)))) \<and>
         (format \<noteq> ''xml'' \<and> format \<noteq> ''hex'' \<longrightarrow>
            printResponse E response format =
              ([], Some (Errorf ''unknown output format: %s'' [ArgString format])))"
proof (intro conjI impI)
  from assms show "readRequest E file fmt = readRequest E file ''hex''"
    by (simp add: readRequest_def)
next
  assume "reads_from E file r \<and> rd_err r = None"
  then have "reads_from E file r" and "rd_err r = None"
    by simp_all
  from readRequest_read [OF this, of fmt] assms
  show "snd (readRequest E file fmt) =
      DecodeString (TrimSpace (string_of_bytes (rd_data r)))"
    by simp
next
  assume "format \<noteq> ''xml'' \<and> format \<noteq> ''hex''"
  then show "printResponse E response format =
      ([], Some (Errorf ''unknown output format: %s'' [ArgString format]))"
    by (simp add: printResponse_def)
qed

theorem readRequest_unknown_format_is_hex_witness:
  "''hxe'' \<noteq> ''xml'' \<and>
   readRequest example_env [] ''hxe'' = readRequest example_env [] ''hex'' \<and>
   snd (readRequest example_env [] ''hxe'') = (response_ok, None) \<and>
   printResponse example_env response_ok ''hxe'' =
     ([], Some (Errorf ''unknown output format: %s'' [ArgString ''hxe'']))"
proof -
  let ?r = "\<lparr>rd_data = bytes_of_string (''  42007b0100000000'' @ [CHR 0x0A]), rd_err = None\<rparr>"
  have f: "''hxe'' \<noteq> ''xml''"
    by simp
  have r: "reads_from example_env [] ?r \<and> rd_err ?r = None"
    by (simp add: reads_from_def example_env_def)
  have enc: "EncodeToString response_ok = ''42007b0100000000''"
    by (simp add: response_ok_def hextable_def)
  have "TrimSpace (''  '' @ EncodeToString response_ok @ [CHR 0x0A]) = EncodeToString response_ok"
    by (rule TrimSpace_hex) (simp_all add: asciiSpace_def)
  then have t: "TrimSpace (''  42007b0100000000'' @ [CHR 0x0A]) = ''42007b0100000000''"
    by (simp add: enc)
  have "DecodeString (EncodeToString response_ok) = (response_ok, None)"
    by (rule DecodeString_EncodeToString)
  then have "DecodeString ''42007b0100000000'' = (response_ok, None)"
    by (simp only: enc)
  with t have d: "DecodeString (TrimSpace (string_of_bytes (rd_data ?r))) = (response_ok, None)"
    by (simp add: string_of_bytes_of_string)
  note inst = readRequest_unknown_format_is_hex [OF f, of example_env "[]" ?r "''hxe''" response_ok]
  from inst have a: "readRequest example_env [] ''hxe'' = readRequest example_env [] ''hex''"
    by (rule conjunct1)
  from inst have "reads_from example_env [] ?r \<and> rd_err ?r = None \<longrightarrow>
      snd (readRequest example_env [] ''hxe'') = DecodeString (TrimSpace (string_of_bytes (rd_data ?r)))"
    by blast
  with r have "snd (readRequest example_env [] ''hxe'') =
      DecodeString (TrimSpace (string_of_bytes (rd_data ?r)))"
    by blast
  with d have b: "snd (readRequest example_env [] ''hxe'') = (response_ok, None)"
    by (simp only:)
  from inst have c: "printResponse example_env response_ok ''hxe'' =
      ([], Some (Errorf ''unknown output format: %s'' [ArgString ''hxe'']))"
    by simp
  from f a b c show ?thesis by blast
qed

text \<open>
  C9. \<open>readRequest\<close> decodes the trimmed input, from a file or standard input and in
  either format: two inputs with the same trimmed text give the same result, so an input
  and its trimmed text do; and the hexadecimal text of \<open>B\<close> with ASCII white space
  before and after it (a trailing newline, say) decodes to \<open>B\<close> with no error.
\<close>

theorem readRequest_trims_whitespace:
  assumes "reads_from E file r" and "rd_err r = None"
  shows "(\<forall>E' file' r'.
            reads_from E' file' r' \<and> rd_err r' = None \<and> xml_Decode E' = xml_Decode E \<and>
            TrimSpace (string_of_bytes (rd_data r')) = TrimSpace (string_of_bytes (rd_data r)) \<longrightarrow>
            snd (readRequest E' file' fmt) = snd (readRequest E file fmt)) \<and>
         (\<forall>pre post B.
            list_all asciiSpace pre \<and> list_all asciiSpace post \<and> fmt \<noteq> ''xml'' \<and>
            string_of_bytes (rd_data r) = pre @ EncodeToString B @ post \<longrightarrow>
            snd (readRequest E file fmt) = (B, None))"
proof (intro conjI allI impI)
  fix E' file' r'
  assume a: "reads_from E' file' r' \<and> rd_err r' = None \<and> xml_Decode E' = xml_Decode E \<and>
          TrimSpace (string_of_bytes (rd_data r')) = TrimSpace (string_of_bytes (rd_data r))"
  then have r': "reads_from E' file' r'" "rd_err r' = None"
    by simp_all
  from a show "snd (readRequest E' file' fmt) = snd (readRequest E file fmt)"
    by (simp add: readRequest_read [OF assms] readRequest_read [OF r'] xmlToHex_def)
next
  fix pre post B
  assume "list_all asciiSpace pre \<and> list_all asciiSpace post \<and> fmt \<noteq> ''xml'' \<and>
          string_of_bytes (rd_data r) = pre @ EncodeToString B @ post"
  then show "snd (readRequest E file fmt) = (B, None)"
    by (simp add: readRequest_read [OF assms] TrimSpace_hex DecodeString_EncodeToString)
qed

theorem readRequest_trims_whitespace_witness:
  "reads_from example_env []
     \<lparr>rd_data = bytes_of_string (''  42007b0100000000'' @ [CHR 0x0A]), rd_err = None\<rparr> \<and>
   reads_from example_env ''request.hex''
     \<lparr>rd_data = bytes_of_string ''42007b0100000000'', rd_err = None\<rparr> \<and>
   TrimSpace (''  42007b0100000000'' @ [CHR 0x0A]) = ''42007b0100000000'' \<and>
   snd (readRequest example_env ''request.hex'' ''hex'') = snd (readRequest example_env [] ''hex'') \<and>
   snd (readRequest example_env [] ''hex'') = (response_ok, None)"
proof -
  let ?r = "\<lparr>rd_data = bytes_of_string (''  42007b0100000000'' @ [CHR 0x0A]), rd_err = None\<rparr>"
  let ?r' = "\<lparr>rd_data = bytes_of_string ''42007b0100000000'', rd_err = None\<rparr>"
  have r: "reads_from example_env [] ?r" "rd_err ?r = None"
    by (simp_all add: reads_from_def example_env_def)
  have r': "reads_from example_env ''request.hex'' ?r'" "rd_err ?r' = None"
    by (simp_all add: reads_from_def example_env_def)
  have enc: "EncodeToString response_ok = ''42007b0100000000''"
    by (simp add: response_ok_def hextable_def)
  have "TrimSpace (''  '' @ EncodeToString response_ok @ [CHR 0x0A]) = EncodeToString response_ok"
    by (rule TrimSpace_hex) (simp_all add: asciiSpace_def)
  then have t: "TrimSpace (''  42007b0100000000'' @ [CHR 0x0A]) = ''42007b0100000000''"
    by (simp add: enc)
  have "TrimSpace (TrimSpace (''  42007b0100000000'' @ [CHR 0x0A]))
          = TrimSpace (''  42007b0100000000'' @ [CHR 0x0A])"
    by (rule TrimSpace_idem)
  then have t': "TrimSpace ''42007b0100000000'' = TrimSpace (''  42007b0100000000'' @ [CHR 0x0A])"
    by (simp only: t)
  note inst = readRequest_trims_whitespace [OF r, of "''hex''"]
  from inst have "reads_from example_env ''request.hex'' ?r' \<and> rd_err ?r' = None \<and>
        xml_Decode example_env = xml_Decode example_env \<and>
        TrimSpace (string_of_bytes (rd_data ?r')) = TrimSpace (string_of_bytes (rd_data ?r)) \<longrightarrow>
        snd (readRequest example_env ''request.hex'' ''hex'') = snd (readRequest example_env [] ''hex'')"
    by blast
  with r' t' have 1: "snd (readRequest example_env ''request.hex'' ''hex'')
                        = snd (readRequest example_env [] ''hex'')"
    by (simp add: string_of_bytes_of_string)
  from inst have "list_all asciiSpace ''  '' \<and> list_all asciiSpace [CHR 0x0A] \<and> ''hex'' \<noteq> ''xml'' \<and>
        string_of_bytes (rd_data ?r) = ''  '' @ EncodeToString response_ok @ [CHR 0x0A] \<longrightarrow>
        snd (readRequest example_env [] ''hex'') = (response_ok, None)"
    by blast
  then have 2: "snd (readRequest example_env [] ''hex'') = (response_ok, None)"
    by (simp add: string_of_bytes_of_string asciiSpace_def enc del: EncodeToString.simps)
  from r(1) r'(1) t 1 2 show ?thesis
    by simp
qed

text \<open>
  C10. In format \<open>xml\<close>, when the input is empty once trimmed and the XML decoder
  answers the empty input with \<open>io.EOF\<close>, \<open>xmlToHex\<close> returns the empty string
  and no error, and \<open>readRequest\<close> returns an empty request and no error.
\<close>

theorem readRequest_empty_xml:
  assumes "reads_from E file r" and "rd_err r = None"
    and "TrimSpace (string_of_bytes (rd_data r)) = []"
    and "snd (xml_Decode E (NewReader [])) = Some EOF"
  shows "xmlToHex E (NewReader []) = ([], None) \<and>
         snd (readRequest E file ''xml'') = ([], None)"
proof -
  from assms(4) have x: "xmlToHex E (NewReader []) = ([], None)"
    by (cases "xml_Decode E (NewReader [])") (simp add: xmlToHex_def)
  with assms(3) show ?thesis
    by (simp add: readRequest_read [OF assms(1,2)])
qed

theorem readRequest_empty_xml_witness:
  "reads_from example_env ''empty.xml''
     \<lparr>rd_data = bytes_of_string [CHR 0x20, CHR 0x0A], rd_err = None\<rparr> \<and>
   TrimSpace [CHR 0x20, CHR 0x0A] = [] \<and>
   snd (xml_Decode example_env (NewReader [])) = Some EOF \<and>
   xmlToHex example_env (NewReader []) = ([], None) \<and>
   snd (readRequest example_env ''empty.xml'' ''xml'') = ([], None)"
proof -
  let ?r = "\<lparr>rd_data = bytes_of_string [CHR 0x20, CHR 0x0A], rd_err = None\<rparr>"
  have r: "reads_from example_env ''empty.xml'' ?r" "rd_err ?r = None"
    by (simp_all add: reads_from_def example_env_def)
  have "TrimSpace ([CHR 0x20, CHR 0x0A] @ [] @ []) = []"
    by (rule TrimSpace_sandwich) (simp_all add: asciiSpace_def)
  then have t: "TrimSpace [CHR 0x20, CHR 0x0A] = []"
    by simp
  then have t': "TrimSpace (string_of_bytes (rd_data ?r)) = []"
    by (simp add: string_of_bytes_of_string)
  have x: "snd (xml_Decode example_env (NewReader [])) = Some EOF"
    by (simp add: example_env_def NewReader_def bytes_of_string_def)
  from readRequest_empty_xml [OF r t' x] r(1) t x show ?thesis
    by simp
qed

subsection \<open>Printing\<close>

text \<open>
  C7. For every response: in format \<open>hex\<close>, \<open>printResponse\<close> prints the
  hexadecimal text of the response bytes and returns no error; in format \<open>xml\<close>, when
  the XML marshalling (with an empty prefix and an indent of two spaces) succeeds, it
  prints the marshalled text and returns no error; for any other format it prints nothing
  and returns an error.
\<close>

theorem printResponse_formats:
  "printResponse E response ''hex'' = (Println (EncodeToString response), None) \<and>
   (xml_MarshalIndent E response [] ''  '' = (s, None) \<longrightarrow>
      printResponse E response ''xml'' = (Println (string_of_bytes s), None)) \<and>
   (format \<noteq> ''xml'' \<and> format \<noteq> ''hex'' \<longrightarrow>
      fst (printResponse E response format) = [] \<and>
      snd (printResponse E response format) =
        Some (Errorf ''unknown output format: %s'' [ArgString format]))"
  by (simp add: printResponse_def)

theorem printResponse_formats_witness:
  "printResponse example_env response_ok ''hex'' = (''42007b0100000000'' @ [CHR 0x0A], None) \<and>
   xml_MarshalIndent example_env response_ok [] ''  '' =
     (bytes_of_string ''<ResponseMessage></ResponseMessage>'', None) \<and>
   printResponse example_env response_ok ''xml'' =
     (''<ResponseMessage></ResponseMessage>'' @ [CHR 0x0A], None) \<and>
   ''json'' \<noteq> ''xml'' \<and> ''json'' \<noteq> ''hex'' \<and>
   printResponse example_env response_ok ''json'' =
     ([], Some (Errorf ''unknown output format: %s'' [ArgString ''json'']))"
proof -
  have m: "xml_MarshalIndent example_env response_ok [] ''  '' =
             (bytes_of_string ''<ResponseMessage></ResponseMessage>'', None)"
    by (simp add: example_env_def)
  have enc: "EncodeToString response_ok = ''42007b0100000000''"
    by (simp add: response_ok_def hextable_def)
  note inst = printResponse_formats
    [of example_env response_ok "bytes_of_string ''<ResponseMessage></ResponseMessage>''" "''json''"]
  from inst have "printResponse example_env response_ok ''hex'' =
      (Println (EncodeToString response_ok), None)"
    by (rule conjunct1)
  then have a: "printResponse example_env response_ok ''hex'' =
      (''42007b0100000000'' @ [CHR 0x0A], None)"
    by (simp add: enc Println_def)
  from inst m have b: "printResponse example_env response_ok ''xml'' =
      (''<ResponseMessage></ResponseMessage>'' @ [CHR 0x0A], None)"
    by (simp add: Println_def string_of_bytes_of_string)
  from inst have "fst (printResponse example_env response_ok ''json'') = [] \<and>
      snd (printResponse example_env response_ok ''json'') =
        Some (Errorf ''unknown output format: %s'' [ArgString ''json''])"
    by simp
  then have c: "printResponse example_env response_ok ''json'' =
      ([], Some (Errorf ''unknown output format: %s'' [ArgString ''json'']))"
    by (simp add: prod_eq_iff)
  have d: "''json'' \<noteq> ''xml''" "''json'' \<noteq> ''hex''"
    by simp_all
  from a m b c d show ?thesis by blast
qed

subsection \<open>The TLS configuration\<close>

text \<open>
  C2. For every call of \<open>setupConnection\<close>: when the client certificate and key do
  not load, it returns an error; every configuration it dials with has minimum version
  TLS 1.2 and exactly the loaded client certificate, has \<open>InsecureSkipVerify\<close> set and
  no root pool when the CA path is empty, and has \<open>InsecureSkipVerify\<close> unset and the
  pool built from the contents of the CA file when the path is not empty; the connection
  it returns is the one dialled with that configuration.
\<close>

theorem setupConnection_tls_config:
  "(\<forall>cer err. tls_LoadX509KeyPair E cert key = (cer, Some err) \<longrightarrow>
      setupConnection E addr key cert ca =
        Inl (Errorf ''failed to load client key pair: %w'' [ArgError err])) \<and>
   (\<forall>conf. setupConnection_conf E key cert ca = Inr conf \<longrightarrow>
      MinVersion conf = VersionTLS12 \<and>
      tls_LoadX509KeyPair E cert key = (hd (Certificates conf), None) \<and>
      length (Certificates conf) = 1 \<and>
      (ca = [] \<longrightarrow> InsecureSkipVerify conf \<and> RootCAs conf = None) \<and>
      (ca \<noteq> [] \<longrightarrow>
         \<not> InsecureSkipVerify conf \<and>
         snd (ioutil_ReadFile E ca) = None \<and>
         RootCAs conf = Some (AppendCertsFromPEM E NewCertPool (fst (ioutil_ReadFile E ca))))) \<and>
   (\<forall>conn. setupConnection E addr key cert ca = Inr conn \<longrightarrow>
      setupConnection_conf E key cert ca = Inr (conn_config conn) \<and>
      tls_Dial E ''tcp'' addr (conn_config conn) = Inr conn)"
proof (intro conjI allI impI)
  fix cer err
  assume "tls_LoadX509KeyPair E cert key = (cer, Some err)"
  then show "setupConnection E addr key cert ca =
      Inl (Errorf ''failed to load client key pair: %w'' [ArgError err])"
    by (simp add: setupConnection_def setupConnection_conf_def)
next
  fix conf
  assume c: "setupConnection_conf E key cert ca = Inr conf"
  obtain cer lerr where l: "tls_LoadX509KeyPair E cert key = (cer, lerr)"
    by (cases "tls_LoadX509KeyPair E cert key")
  obtain caCert rerr where r: "ioutil_ReadFile E ca = (caCert, rerr)"
    by (cases "ioutil_ReadFile E ca")
  from c l r have lerr: "lerr = None"
    by (cases lerr) (simp_all add: setupConnection_conf_def)
  from c l r lerr have rerr: "ca \<noteq> [] \<longrightarrow> rerr = None"
    by (cases rerr) (auto simp: setupConnection_conf_def Let_def split: if_splits)
  from c l r lerr rerr
  have conf: "conf = (if ca \<noteq> [] then
                 \<lparr>Certificates = [cer], MinVersion = VersionTLS12,
                  RootCAs = Some (AppendCertsFromPEM E NewCertPool caCert),
                  InsecureSkipVerify = False\<rparr>
               else \<lparr>Certificates = [cer], MinVersion = VersionTLS12,
                     RootCAs = None, InsecureSkipVerify = True\<rparr>)"
    by (cases "ca = []") (auto simp: setupConnection_conf_def Let_def)
  show "MinVersion conf = VersionTLS12"
    by (simp add: conf)
  show "tls_LoadX509KeyPair E cert key = (hd (Certificates conf), None)"
    by (simp add: conf l lerr)
  show "length (Certificates conf) = 1"
    by (simp add: conf)
  show "InsecureSkipVerify conf" if "ca = []"
    using that by (simp add: conf)
  show "RootCAs conf = None" if "ca = []"
    using that by (simp add: conf)
  show "\<not> InsecureSkipVerify conf" if "ca \<noteq> []"
    using that by (simp add: conf)
  show "snd (ioutil_ReadFile E ca) = None" if "ca \<noteq> []"
    using that rerr by (simp add: r)
  show "RootCAs conf = Some (AppendCertsFromPEM E NewCertPool (fst (ioutil_ReadFile E ca)))"
    if "ca \<noteq> []"
    using that by (simp add: conf r)
next
  fix conn
  assume s: "setupConnection E addr key cert ca = Inr conn"
  then obtain conf where c: "setupConnection_conf E key cert ca = Inr conf"
    by (cases "setupConnection_conf E key cert ca") (simp_all add: setupConnection_def)
  with s have d: "tls_Dial E ''tcp'' addr conf = Inr conn"
    by (cases "tls_Dial E ''tcp'' addr conf") (simp_all add: setupConnection_def)
  then have "conn_config conn = conf"
    by (cases "net_Dial E ''tcp'' addr conf") (auto simp: tls_Dial_def split: option.splits)
  with c d show "setupConnection_conf E key cert ca = Inr (conn_config conn)"
    and "tls_Dial E ''tcp'' addr (conn_config conn) = Inr conn"
    by simp_all
qed

theorem setupConnection_tls_config_witness:
  "(\<exists>conn. setupConnection example_env ''localhost:5696'' ''client.key'' ''client.pem'' [] = Inr conn \<and>
      conn_config conn =
        \<lparr>Certificates = [example_cert], MinVersion = 0x0303, RootCAs = None,
         InsecureSkipVerify = True\<rparr>) \<and>
   (\<exists>conn. setupConnection example_env ''localhost:5696'' ''client.key'' ''client.pem'' ''ca.pem'' = Inr conn \<and>
      conn_config conn =
        \<lparr>Certificates = [example_cert], MinVersion = 0x0303, RootCAs = Some [[0x2D, 0x2D]],
         InsecureSkipVerify = False\<rparr>) \<and>
   setupConnection example_env ''localhost:5696'' ''missing.key'' ''client.pem'' [] =
     Inl (Errorf ''failed to load client key pair: %w''
           [ArgError (External ''no such file or directory'')])"
proof -
  have l: "tls_LoadX509KeyPair example_env ''client.pem'' ''client.key'' = (example_cert, None)"
    by (simp add: example_env_def)
  have r: "ioutil_ReadFile example_env ''ca.pem'' = ([0x2D, 0x2D], None)"
    by (simp add: example_env_def)
  have p: "AppendCertsFromPEM example_env NewCertPool [0x2D, 0x2D] = [[0x2D, 0x2D]]"
    by (simp add: AppendCertsFromPEM_def NewCertPool_def example_env_def)
  obtain c1 where c1: "setupConnection example_env ''localhost:5696'' ''client.key'' ''client.pem'' [] = Inr c1"
    by (simp add: setupConnection_def setupConnection_conf_def tls_Dial_def example_env_def)
  obtain c2 where c2: "setupConnection example_env ''localhost:5696'' ''client.key'' ''client.pem'' ''ca.pem'' = Inr c2"
    by (simp add: setupConnection_def setupConnection_conf_def tls_Dial_def example_env_def)
  note i1 = setupConnection_tls_config
    [of example_env "''client.pem''" "''client.key''" "''localhost:5696''" "[]"]
  note i2 = setupConnection_tls_config
    [of example_env "''client.pem''" "''client.key''" "''localhost:5696''" "''ca.pem''"]
  note i3 = setupConnection_tls_config
    [of example_env "''client.pem''" "''missing.key''" "''localhost:5696''" "[]"]
  from i1 c1 have k1: "setupConnection_conf example_env ''client.key'' ''client.pem'' [] = Inr (conn_config c1)"
    by blast
  with i1 have "MinVersion (conn_config c1) = VersionTLS12 \<and>
      tls_LoadX509KeyPair example_env ''client.pem'' ''client.key'' = (hd (Certificates (conn_config c1)), None) \<and>
      length (Certificates (conn_config c1)) = 1 \<and>
      InsecureSkipVerify (conn_config c1) \<and> RootCAs (conn_config c1) = None"
    by blast
  with l have "MinVersion (conn_config c1) = 0x0303 \<and> Certificates (conn_config c1) = [example_cert] \<and>
      InsecureSkipVerify (conn_config c1) \<and> RootCAs (conn_config c1) = None"
    by (cases "Certificates (conn_config c1)") (simp_all add: VersionTLS12_def)
  then have e1: "conn_config c1 =
        \<lparr>Certificates = [example_cert], MinVersion = 0x0303, RootCAs = None,
         InsecureSkipVerify = True\<rparr>"
    by (cases "conn_config c1") simp
  from i2 c2 have k2: "setupConnection_conf example_env ''client.key'' ''client.pem'' ''ca.pem'' = Inr (conn_config c2)"
    by blast
  have ne: "''ca.pem'' \<noteq> []"
    by simp
  from i2 k2 ne have "MinVersion (conn_config c2) = VersionTLS12 \<and>
      tls_LoadX509KeyPair example_env ''client.pem'' ''client.key'' = (hd (Certificates (conn_config c2)), None) \<and>
      length (Certificates (conn_config c2)) = 1 \<and>
      \<not> InsecureSkipVerify (conn_config c2) \<and>
      RootCAs (conn_config c2) =
        Some (AppendCertsFromPEM example_env NewCertPool (fst (ioutil_ReadFile example_env ''ca.pem'')))"
    by blast
  with l r p have "MinVersion (conn_config c2) = 0x0303 \<and> Certificates (conn_config c2) = [example_cert] \<and>
      \<not> InsecureSkipVerify (conn_config c2) \<and> RootCAs (conn_config c2) = Some [[0x2D, 0x2D]]"
    by (cases "Certificates (conn_config c2)") (simp_all add: VersionTLS12_def)
  then have e2: "conn_config c2 =
        \<lparr>Certificates = [example_cert], MinVersion = 0x0303, RootCAs = Some [[0x2D, 0x2D]],
         InsecureSkipVerify = False\<rparr>"
    by (cases "conn_config c2") simp
  have "tls_LoadX509KeyPair example_env ''client.pem'' ''missing.key'' =
          (\<lparr>Certificate = [], PrivateKey = []\<rparr>, Some (External ''no such file or directory''))"
    by (simp add: example_env_def)
  with i3 have e3: "setupConnection example_env ''localhost:5696'' ''missing.key'' ''client.pem'' [] =
     Inl (Errorf ''failed to load client key pair: %w''
           [ArgError (External ''no such file or directory'')])"
    by blast
  from c1 e1 c2 e2 e3 show ?thesis by blast
qed

subsection \<open>Failures of the exchange\<close>

text \<open>
  C3, as stated, fails: four bytes arrive and the stream ends; the decoder fails and
  hands back what it has read, and \<open>sendRequest\<close> returns no bytes with the error.
\<close>

theorem sendRequest_partial_response_counterexample:
  "rd_data (rw_incoming example_peer [0x42, 0x00, 0x7B, 0x01]) = [0x42, 0x00, 0x7B, 0x01] \<and>
   ttlv_NextTTLV example_env (rw_incoming example_peer [0x42, 0x00, 0x7B, 0x01]) =
     ([0x42, 0x00, 0x7B, 0x01], Some ErrUnexpectedEOF) \<and>
   sendRequest example_env example_peer [0x42, 0x00, 0x7B, 0x01] =
     ([], ''Unable to decode response TTLV'', Some ErrUnexpectedEOF) \<and>
   fst (sendRequest example_env example_peer [0x42, 0x00, 0x7B, 0x01]) \<noteq>
     rd_data (rw_incoming example_peer [0x42, 0x00, 0x7B, 0x01])"
  by (simp add: sendRequest_def example_env_def example_peer_def)

text \<open>
  C3, amended. Once the request is written: when reading the node from the stream fails,
  \<open>sendRequest\<close> returns no bytes, the text \<open>Unable to decode response TTLV\<close> and
  the decoder's error; when the node is read but does not decode as a response message,
  \<open>sendRequest\<close> returns the bytes of the node with the error.
\<close>

theorem sendRequest_failure_returns:
  assumes "rw_Write conn request = (n, None)"
  shows "(\<forall>resp err. ttlv_NextTTLV E (rw_incoming conn request) = (resp, Some err) \<longrightarrow>
            sendRequest E conn request = ([], ''Unable to decode response TTLV'', Some err)) \<and>
         (\<forall>resp respMsg err.
            ttlv_NextTTLV E (rw_incoming conn request) = (resp, None) \<and>
            ttlv_DecodeValue E resp = (respMsg, Some err) \<longrightarrow>
            sendRequest E conn request =
              (resp, [], Some (Errorf ''failed to decode response message: %w'' [ArgError err])))"
  using assms by (simp add: sendRequest_def)

theorem sendRequest_failure_returns_witness:
  "rw_Write example_peer [0x42, 0x00, 0x7B, 0x01] = (4, None) \<and>
   ttlv_NextTTLV example_env (rw_incoming example_peer [0x42, 0x00, 0x7B, 0x01]) =
     ([0x42, 0x00, 0x7B, 0x01], Some ErrUnexpectedEOF) \<and>
   sendRequest example_env example_peer [0x42, 0x00, 0x7B, 0x01] =
     ([], ''Unable to decode response TTLV'', Some ErrUnexpectedEOF) \<and>
   rw_Write example_peer [0x42, 0x00, 0x7B, 0x01, 0, 0, 0, 0, 0, 0] = (10, None) \<and>
   ttlv_NextTTLV example_env (rw_incoming example_peer [0x42, 0x00, 0x7B, 0x01, 0, 0, 0, 0, 0, 0]) =
     ([0x42, 0x00, 0x7B, 0x01, 0, 0, 0, 0, 0, 0], None) \<and>
   ttlv_DecodeValue example_env [0x42, 0x00, 0x7B, 0x01, 0, 0, 0, 0, 0, 0] =
     (\<lparr>BatchItem = []\<rparr>, Some (External ''unexpected tag'')) \<and>
   sendRequest example_env example_peer [0x42, 0x00, 0x7B, 0x01, 0, 0, 0, 0, 0, 0] =
     ([0x42, 0x00, 0x7B, 0x01, 0, 0, 0, 0, 0, 0], [],
      Some (Errorf ''failed to decode response message: %w''
             [ArgError (External ''unexpected tag'')]))"
proof -
  let ?short = "[0x42, 0x00, 0x7B, 0x01] :: byte list"
  let ?long = "[0x42, 0x00, 0x7B, 0x01, 0, 0, 0, 0, 0, 0] :: byte list"
  have w1: "rw_Write example_peer ?short = (4, None)"
    by (simp add: example_peer_def)
  have n1: "ttlv_NextTTLV example_env (rw_incoming example_peer ?short) =
              (?short, Some ErrUnexpectedEOF)"
    by (simp add: example_env_def example_peer_def)
  have w2: "rw_Write example_peer ?long = (10, None)"
    by (simp add: example_peer_def)
  have n2: "ttlv_NextTTLV example_env (rw_incoming example_peer ?long) = (?long, None)"
    by (simp add: example_env_def example_peer_def)
  have d2: "ttlv_DecodeValue example_env ?long =
              (\<lparr>BatchItem = []\<rparr>, Some (External ''unexpected tag''))"
    by (simp add: example_env_def response_ok_def response_failed_def)
  from sendRequest_failure_returns [OF w1, of example_env] n1
  have r1: "sendRequest example_env example_peer ?short =
              ([], ''Unable to decode response TTLV'', Some ErrUnexpectedEOF)"
    by blast
  from sendRequest_failure_returns [OF w2, of example_env] n2 d2
  have r2: "sendRequest example_env example_peer ?long =
              (?long, [], Some (Errorf ''failed to decode response message: %w''
                                  [ArgError (External ''unexpected tag'')]))"
    by blast
  from w1 n1 r1 w2 n2 d2 r2 show ?thesis by blast
qed

subsection \<open>Exit status\<close>




subsection \<open>Closing the connection\<close>

text \<open>
  \<open>conn.Close\<close> is called exactly on the path that ends with status 0 after the
  connection is established: no path through \<open>log.Fatalf\<close> calls it.
\<close>

lemma main_closed_iff:
  "closed (main E fl) \<longleftrightarrow> established (main E fl) \<noteq> None \<and> exit_status (main E fl) = 0"
  by (auto simp: main_def Fatalf_def Let_def split: sum.splits prod.splits option.splits)

text \<open>
  C5 at a failing input: the connection is established, the request file holds XML while
  the input format is \<open>hex\<close>, so \<open>readRequest\<close> fails; the program ends with status
  1 and \<open>conn.Close\<close> has not been called.
\<close>

theorem main_fatal_skips_Close:
  "established (main example_env (example_flags\<lparr>inputFile := ''request.xml''\<rparr>)) \<noteq> None \<and>
   stderr (main example_env (example_flags\<lparr>inputFile := ''request.xml''\<rparr>)) =
     [Logf ''Failed to read request: %v'' [ArgError (InvalidByteError 0x3C)]] \<and>
   exit_status (main example_env (example_flags\<lparr>inputFile := ''request.xml''\<rparr>)) = 1 \<and>
   \<not> closed (main example_env (example_flags\<lparr>inputFile := ''request.xml''\<rparr>))"
proof -
  let ?fl = "example_flags\<lparr>inputFile := ''request.xml''\<rparr>"
  let ?r = "\<lparr>rd_data = bytes_of_string (''<ResponseMessage/>'' @ [CHR 0x0A]), rd_err = None\<rparr>"
  have r: "reads_from example_env ''request.xml'' ?r" "rd_err ?r = None"
    by (simp_all add: reads_from_def example_env_def)
  have "TrimSpace ([] @ ''<ResponseMessage/>'' @ [CHR 0x0A]) = ''<ResponseMessage/>''"
    by (rule TrimSpace_sandwich) (simp_all add: asciiSpace_def)
  then have "TrimSpace (string_of_bytes (rd_data ?r)) = ''<ResponseMessage/>''"
    by (simp add: string_of_bytes_of_string)
  with readRequest_read [OF r, of "''hex''"]
  have "snd (readRequest example_env ''request.xml'' ''hex'') = ([], Some (InvalidByteError 0x3C))"
    by (simp add: reverseHexTable_def)
  then obtain out where rr: "readRequest example_env ''request.xml'' ''hex'' =
      (out, [], Some (InvalidByteError 0x3C))"
    by (cases "readRequest example_env ''request.xml'' ''hex''") simp
  obtain conn where sc:
    "setupConnection example_env ''localhost:5696'' ''client.key'' ''client.pem'' [] = Inr conn"
    by (simp add: setupConnection_def setupConnection_conf_def tls_Dial_def example_env_def)
  have "main example_env ?fl =
      Fatalf \<lparr>stdout = out, stderr = [], established = Some conn, closed = False, exit_status = 0\<rparr>
        ''Failed to read request: %v'' [ArgError (InvalidByteError 0x3C)]"
    by (simp add: main_def example_flags_def rr sc)
  then show ?thesis
    by (simp add: Fatalf_def)
qed

end
